theory Spec2Isabelle
  imports Main "HOL-Library.Sublist"
begin

section \<open>Data model of the course-generator front end (src/frontend/main.js)\<close>

text \<open>
  The front end keeps one course document, \<^verbatim>\<open>currentCourse\<close>, as parsed JSON and staples
  the client-only flags \<^verbatim>\<open>_days\<close>, \<^verbatim>\<open>_expanded\<close>, \<^verbatim>\<open>_loading\<close> (on a week) and
  \<^verbatim>\<open>_loaded\<close> (on a day) onto it. Field names carry a prefix for the record they belong
  to, since an Isabelle name cannot start with an underscore and the records share names:
  \<open>w_days\<close> is \<^verbatim>\<open>week._days\<close>, \<open>d_loaded\<close> is \<^verbatim>\<open>day._loaded\<close>, and so on.

  An optional JSON property that the code only ever tests for truthiness or passes on is an
  \<open>option\<close>: \<open>None\<close> stands for \<^verbatim>\<open>undefined\<close> and \<^verbatim>\<open>null\<close> alike. A flag that the
  code only tests for truthiness is a \<open>bool\<close>, \<open>False\<close> standing for \<^verbatim>\<open>undefined\<close> too.
  Numbers are \<open>int\<close> (the week and day numbers are small integers, far from the
  2^53 limit of exact doubles).

  The code checks no schema: the shapes of the outline and of a day's details are those
  the specification gives the backend's responses (its sections 3, 4.1 and 6).
\<close>

text \<open>A property of a parsed JSON object, where the code is sensitive to the difference
  between an absent key and a key holding \<^verbatim>\<open>null\<close> (as \<^verbatim>\<open>Object.assign\<close> is).\<close>

datatype 'a property = Missing | Null | Val 'a

record Resource =
  r_source :: string
  r_url :: "string option"
  r_title :: "string option"
  r_description :: "string option"
  r_thumbnail :: "string option"

text \<open>A day object. The week endpoint delivers day objects and the code stores them as
  they come (line 353), so a delivered day is a \<open>Day\<close> too: as the specification shapes
  the response its detail fields are absent and \<^verbatim>\<open>_loaded\<close> is not set, but nothing in the
  code checks that.\<close>

record Day =
  d_day :: int
  d_title :: "string option"
  d_concepts :: "string list option"
  d_task_type :: "string option"
  d_duration_minutes :: "int option"
  d_loaded :: bool
  d_description :: "string option"
  d_table_of_contents :: "string list option"
  d_resources :: "Resource list option"

text \<open>A week as the outline endpoint delivers it (the spec's Week minus client-only fields).\<close>

record WeekOutline =
  wo_week :: int
  wo_title :: "string option"
  wo_focus :: "string option"
  wo_concepts :: "string list option"

text \<open>
  \<^verbatim>\<open>week._days\<close> is a reference to a JavaScript array of day objects. A pending day fetch
  holds on to one of these day objects while the week may already point to a newer array,
  so arrays live in an explicit store (\<open>arrays\<close> below) and \<open>w_days\<close> is an address in it.
\<close>

record Week =
  w_week :: int
  w_title :: "string option"
  w_focus :: "string option"
  w_concepts :: "string list option"
  w_days :: "nat option"
  w_expanded :: bool
  w_loading :: bool

subsection \<open>The network\<close>

text \<open>The bodies of the two POST requests the disclosure controller sends
  (\<^verbatim>\<open>JSON.stringify\<close> leaves out a property whose value is \<^verbatim>\<open>undefined\<close>).\<close>

datatype request =
    WeekRequest (rq_goal: string) (week_number: int) (week_title: "string option")
      (rq_concepts: "string list") (rq_model: string)
  | DayRequest (rq_goal: string) (day_title: "string option") (day_number: int)
      (duration_minutes: int) (task_type: string) (rq_model: string)

text \<open>
  A parsed response body, seen through the properties the client reads: \<^verbatim>\<open>detail\<close>
  (error message of the backend), \<^verbatim>\<open>weeks\<close> (outline endpoint), \<^verbatim>\<open>days\<close> (week
  endpoint) and the day details (day endpoint).
\<close>

record json_obj =
  j_detail :: "string property"
  j_weeks :: "WeekOutline list property"
  j_days :: "Day list property"
  j_description :: "string property"
  j_table_of_contents :: "string list property"
  j_resources :: "Resource list property"

datatype json_body = NotJson | JsonNull | JsonObj json_obj

text \<open>What \<^verbatim>\<open>await fetch(...)\<close> gives: the promise rejects (network failure), or it
  resolves to a response with a status and a body.\<close>

datatype response = FetchRejected | Http nat json_body

definition response_ok :: "nat \<Rightarrow> bool" where
  "response_ok st \<longleftrightarrow> 200 \<le> st \<and> st \<le> 299"

text \<open>The exceptions the code can see. The message of a \<^verbatim>\<open>TypeError\<close> or a
  \<^verbatim>\<open>SyntaxError\<close> is chosen by the JavaScript engine.\<close>

datatype js_error = Error string | TypeError | SyntaxError

subsection \<open>The state\<close>

text \<open>
  An \<^verbatim>\<open>async\<close> function runs to its first \<^verbatim>\<open>await\<close>, where it suspends; the rest runs
  when the response arrives. A suspended call is a \<open>task\<close> holding the references its
  closure captured: \<^verbatim>\<open>week\<close> (as the index of the week object in \<^verbatim>\<open>currentCourse.weeks\<close>,
  an array the code never reorders) or \<^verbatim>\<open>day\<close> (as the address of its array and its index
  there).
\<close>

datatype task = WeekFetch nat | DayFetch nat nat

record state =
  weeks :: "Week list"
  params_goal :: string
  params_model :: string
  arrays :: "Day list list"
  pending :: "task list"
  requests :: "request list"
  toasts :: "(string \<times> bool) list"
  console :: "js_error list"
  dom_days :: "(int \<times> int) list"

text \<open>
  \<open>requests\<close> is the log of every \<^verbatim>\<open>fetch\<close> issued, \<open>toasts\<close> of every \<^verbatim>\<open>showToast\<close>
  (message, isError), \<open>console\<close> of every \<^verbatim>\<open>console.error\<close>. \<open>dom_days\<close> lists the day
  cards present in \<^verbatim>\<open>#timelineContent\<close>, each by the pair of numbers in its element id
  \<^verbatim>\<open>day-${weekNum}-${day.day}\<close>.
\<close>

section \<open>Array helpers\<close>

text \<open>\<^verbatim>\<open>Array.prototype.findIndex\<close>; \<open>None\<close> is the \<^verbatim>\<open>-1\<close> of JavaScript.
  \<^verbatim>\<open>Array.prototype.find\<close> is \<^const>\<open>List.find\<close>.\<close>

fun findIndex :: "('a \<Rightarrow> bool) \<Rightarrow> 'a list \<Rightarrow> nat option" where
  "findIndex P [] = None"
| "findIndex P (x # xs) = (if P x then Some 0 else map_option Suc (findIndex P xs))"

section \<open>The renderer (lines 211-314 and 413-529)\<close>

text \<open>
  The markup is the string the template literals of the source build, character for
  character (line breaks and indentation included); a character outside ASCII is given
  by the bytes of its UTF-8 encoding.
\<close>

subsection \<open>Utilities (lines 514-529)\<close>

text \<open>\<^verbatim>\<open>!str\<close>: \<^verbatim>\<open>undefined\<close>, \<^verbatim>\<open>null\<close> and the empty string are falsy.\<close>

definition falsy :: "string option \<Rightarrow> bool" where
  "falsy str = (case str of None \<Rightarrow> True | Some x \<Rightarrow> x = [])"

text \<open>\<^verbatim>\<open>a || b\<close> on strings.\<close>

definition or_else :: "string option \<Rightarrow> string \<Rightarrow> string" where
  "or_else a b = (case a of None \<Rightarrow> b | Some x \<Rightarrow> if x = [] then b else x)"

text \<open>
  Modelled from the HTML standard (the DOM is not part of this repository): reading
  \<^verbatim>\<open>innerHTML\<close> of an element whose \<^verbatim>\<open>textContent\<close> was set serialises one text node,
  replacing \<^verbatim>\<open>&\<close>, the no-break space U+00A0 (bytes C2 A0), \<^verbatim>\<open><\<close> and \<^verbatim>\<open>>\<close> by
  \<^verbatim>\<open>&amp;\<close>, \<^verbatim>\<open>&nbsp;\<close>, \<^verbatim>\<open>&lt;\<close> and \<^verbatim>\<open>&gt;\<close>.
\<close>

definition escape_char :: "char \<Rightarrow> string" where
  "escape_char c =
     (if c = CHR ''&'' then ''&amp;''
      else if c = CHR ''<'' then ''&lt;''
      else if c = CHR ''>'' then ''&gt;''
      else [c])"

fun serialize_text :: "string \<Rightarrow> string" where
  "serialize_text [] = []"
| "serialize_text [c] = escape_char c"
| "serialize_text (c # d # cs) =
     (if c = CHR 0xC2 \<and> d = CHR 0xA0 then ''&nbsp;'' @ serialize_text cs
      else escape_char c @ serialize_text (d # cs))"

definition escHtml :: "string option \<Rightarrow> string" where
  "escHtml str = (case str of None \<Rightarrow> [] | Some x \<Rightarrow> if x = [] then [] else serialize_text x)"

text \<open>\<^verbatim>\<open>str.replace(/c/g, r)\<close> for a one-character pattern.\<close>

definition replace_all :: "char \<Rightarrow> string \<Rightarrow> string \<Rightarrow> string" where
  "replace_all c r str = concat (map (\<lambda>x. if x = c then r else [x]) str)"

definition escAttr :: "string option \<Rightarrow> string" where
  \<open>escAttr str =
     (case str of
        None \<Rightarrow> []
      | Some x \<Rightarrow>
          if x = [] then []
          else replace_all (CHR ''>'') ''&gt;''
                (replace_all (CHR ''<'') ''&lt;''
                  (replace_all (CHR 0x27) ''&#39;''
                    (replace_all (CHR 0x22) ''&quot;''
                      (replace_all (CHR ''&'') ''&amp;'' x)))))\<close>

text \<open>A number in a template literal: the decimal digits, after a minus sign if negative.\<close>

fun show_nat :: "nat \<Rightarrow> string" where
  "show_nat n =
     (if n < 10 then [''0123456789'' ! n]
      else show_nat (n div 10) @ [''0123456789'' ! (n mod 10)])"

definition show_int :: "int \<Rightarrow> string" where
  "show_int i = (if i < 0 then ''-'' @ show_nat (nat (- i)) else show_nat (nat i))"

subsection \<open>renderResources (lines 434-485)\<close>

definition thumbnail_img :: "Resource \<Rightarrow> string" where
  \<open>thumbnail_img r = ''<img class="resource-thumb" src="'' @ escAttr (r_thumbnail r) @ ''" alt="'' @ escAttr (r_title r) @ ''" loading="lazy" onerror="this.style.display='none'" />''\<close>

definition thumbnail_placeholder :: string where
  \<open>thumbnail_placeholder = ''<div class="resource-thumb" style="display:flex;align-items:center;justify-content:center;font-size:2rem">'' @ [CHR 0xF0, CHR 0x9F, CHR 0x8E, CHR 0xAC] @ ''</div>''\<close>

definition resource_desc :: "Resource \<Rightarrow> string" where
  \<open>resource_desc r = ''<div class="resource-desc">'' @ escHtml (r_description r) @ ''</div>''\<close>

definition youtube_card :: "Resource \<Rightarrow> string" where
  \<open>youtube_card r = ''
            <a href="'' @ escAttr (r_url r) @ ''" target="_blank" rel="noopener" class="resource-card">
              '' @ (if \<not> falsy (r_thumbnail r) then thumbnail_img r else thumbnail_placeholder) @ ''
              <div class="resource-info">
                <div class="resource-source youtube">'' @ [CHR 0xE2, CHR 0x96, CHR 0xB6] @ '' YouTube</div>
                <div class="resource-title">'' @ escHtml (r_title r) @ ''</div>
                '' @ (if \<not> falsy (r_description r) then resource_desc r else []) @ ''
              </div>
            </a>
          ''\<close>

definition web_card :: "Resource \<Rightarrow> string" where
  \<open>web_card r = ''
            <a href="'' @ escAttr (r_url r) @ ''" target="_blank" rel="noopener" class="resource-card">
              <div class="resource-info">
                <div class="resource-source web">'' @ [CHR 0xF0, CHR 0x9F, CHR 0x8C, CHR 0x90] @ '' Article</div>
                <div class="resource-title">'' @ escHtml (r_title r) @ ''</div>
                '' @ (if \<not> falsy (r_description r) then resource_desc r else []) @ ''
              </div>
            </a>
          ''\<close>

definition renderResources :: "Resource list \<Rightarrow> string" where
  \<open>renderResources resources =
     (if resources = [] then []
      else
        let youtube = filter (\<lambda>r. r_source r = ''youtube'') resources;
            web = filter (\<lambda>r. r_source r = ''web'') resources;
            html = [];
            html = (if youtube \<noteq> [] then html @ ''
      <div class="resources-section">
        <h4>'' @ [CHR 0xF0, CHR 0x9F, CHR 0x8E, CHR 0xAC] @ '' YouTube Videos</h4>
        <div class="resources-grid">
          '' @ concat (map youtube_card youtube) @ ''
        </div>
      </div>
    '' else html);
            html = (if web \<noteq> [] then html @ ''
      <div class="resources-section" style="margin-top:var(--space-lg)">
        <h4>'' @ [CHR 0xF0, CHR 0x9F, CHR 0x8C, CHR 0x90] @ '' Web Resources</h4>
        <div class="resources-grid">
          '' @ concat (map web_card web) @ ''
        </div>
      </div>
    '' else html)
        in html)\<close>

subsection \<open>renderDayContent (lines 413-430)\<close>

definition renderDayContent :: "Day \<Rightarrow> string" where
  \<open>renderDayContent task =
     (let tocHtml =
        (case d_table_of_contents task of
           None \<Rightarrow> []
         | Some toc \<Rightarrow>
             if toc = [] then []
             else ''
            <div class="day-toc" style="margin-top:15px; margin-bottom:15px;">
                <h5 style="margin:0 0 8px 0; color:var(--primary); font-size:0.9rem; text-transform:uppercase; letter-spacing:0.5px;">Table of Contents</h5>
                <ul style="margin:0; padding-left:20px; color:var(--text-secondary);">
                    '' @ concat (map (\<lambda>t. ''<li style="margin-bottom:4px">'' @ escHtml (Some t) @ ''</li>'') toc) @ ''
                </ul>
            </div>'')
      in ''
        <div class="day-desc">'' @ escHtml (d_description task) @ ''</div>
        '' @ tocHtml @ ''
        '' @ renderResources (case d_resources task of None \<Rightarrow> [] | Some rs \<Rightarrow> rs) @ ''
    '')\<close>

subsection \<open>renderDayCard (lines 281-314)\<close>

text \<open>The local constant \<^verbatim>\<open>globalDay\<close> of line 283; the template does not use it.\<close>

definition globalDay :: "int \<Rightarrow> Day \<Rightarrow> int" where
  "globalDay weekNum day = (weekNum - 1) * 7 + d_day day"

definition renderDayCard :: "Day \<Rightarrow> int \<Rightarrow> string" where
  \<open>renderDayCard day weekNum =
     (let isLoaded = d_loaded day;
          conceptsHtml =
            (case d_concepts day of
               None \<Rightarrow> []
             | Some cs \<Rightarrow>
                 if cs = [] then []
                 else ''
        <div class="day-concepts" style="margin-top:4px">
            '' @ concat (map (\<lambda>c. ''<span class="concept-tag">'' @ escHtml (Some c) @ ''</span>'') cs) @ ''
        </div>
        '');
          contentHtml =
            (if isLoaded then ''<div class="day-content-area">'' @ renderDayContent day @ ''</div>'' else [])
      in ''
    <div class="timeline-day day-in-week '' @ (if isLoaded then ''loaded'' else []) @ ''" 
         id="day-'' @ show_int weekNum @ ''-'' @ show_int (d_day day) @ ''"
         onclick="loadDayContent('' @ show_int weekNum @ '', '' @ show_int (d_day day) @ '')" 
         style="cursor:pointer; margin-left: 16px; border-left: 2px solid var(--border-color); padding-left: 12px;">
        <div class="day-header">
            <span class="day-number" style="font-size:0.75rem">Day '' @ show_int (d_day day) @ ''</span>
            <span class="day-type '' @ or_else (d_task_type day) ''theory'' @ ''" style="font-size:0.65rem">'' @ or_else (d_task_type day) ''theory'' @ ''</span>
            '' @ (if \<not> isLoaded then ''<span class="day-status" style="font-size:0.7em; opacity:0.6">Load details '' @ [CHR 0xE2, CHR 0x86, CHR 0x92] @ ''</span>'' else []) @ ''
        </div>
        <div class="day-title" style="font-size:0.85rem">'' @ escHtml (d_title day) @ ''</div>
        '' @ conceptsHtml @ ''
        '' @ contentHtml @ ''
    </div>
    '')\<close>

subsection \<open>renderWeekCard (lines 239-279)\<close>

definition renderWeekCard :: "Day list list \<Rightarrow> Week \<Rightarrow> string" where
  \<open>renderWeekCard store week =
     (let focusClass = or_else (w_focus week) ''theory'';
          isExpanded = w_expanded week;
          isLoading = w_loading week;
          conceptsHtml =
            (case w_concepts week of
               None \<Rightarrow> []
             | Some cs \<Rightarrow>
                 if cs = [] then []
                 else ''
        <div class="day-concepts">
            '' @ concat (map (\<lambda>c. ''<span class="concept-tag">'' @ escHtml (Some c) @ ''</span>'') cs) @ ''
        </div>
        '');
          daysHtml =
            (if isExpanded \<and> w_days week \<noteq> None then
               ''
        <div class="week-days-breakdown">
            '' @ concat (map (\<lambda>day. renderDayCard day (w_week week)) (store ! the (w_days week))) @ ''
        </div>
        ''
             else if isLoading then
               ''<div class="week-days-breakdown"><div class="spinner-small">Loading daily breakdown...</div></div>''
             else [])
      in ''
    <div class="timeline-day week-card '' @ (if isExpanded then ''expanded'' else []) @ ''" 
         id="week-'' @ show_int (w_week week) @ ''">
        <div class="day-header" onclick="toggleWeekExpand('' @ show_int (w_week week) @ '')" style="cursor:pointer">
            <span class="day-number">Week '' @ show_int (w_week week) @ ''</span>
            <span class="day-type '' @ focusClass @ ''">'' @ focusClass @ ''</span>
            <span class="day-status" style="font-size:0.8em; opacity:0.7">
                '' @ (if isExpanded then [CHR 0xE2, CHR 0x96, CHR 0xB2] @ '' Collapse'' else [CHR 0xE2, CHR 0x96, CHR 0xBC] @ '' Click to expand days'') @ ''
            </span>
        </div>
        <div class="day-title">'' @ escHtml (w_title week) @ ''</div>
        '' @ conceptsHtml @ ''
        '' @ daysHtml @ ''
    </div>
    '')\<close>

subsection \<open>The markup of renderWeeklyTimeline (lines 211-237)\<close>

definition monthNames :: "string list" where
  "monthNames = [''Month 1'', ''Month 2'', ''Month 3'', ''Month 4'', ''Month 5'', ''Month 6'', ''Month 7'']"

text \<open>\<^verbatim>\<open>monthNames[m] || `Month ${m + 1}`\<close>: past the end of the table the index gives
  \<^verbatim>\<open>undefined\<close>.\<close>

definition month_title :: "nat \<Rightarrow> string" where
  "month_title m =
     or_else (if m < length monthNames then Some (monthNames ! m) else None)
       (''Month '' @ show_nat (m + 1))"

text \<open>The string assigned to \<^verbatim>\<open>innerHTML\<close> of \<^verbatim>\<open>#timelineContent\<close>; the \<^verbatim>\<open>for\<close> loop over
  the months is the fold.\<close>

definition timeline_html :: "Day list list \<Rightarrow> Week list \<Rightarrow> string" where
  \<open>timeline_html store ws =
     (if ws = [] then
        ''<p style="color:var(--text-muted)">No timeline data available.</p>''
      else
        let totalMonths = (length ws + 3) div 4;
            html =
              foldl
                (\<lambda>html m.
                   let monthWeeks = take 4 (drop (m * 4) ws)
                   in html @ ''
        <div class="timeline-month">
            <div class="timeline-month-title">'' @ month_title m @ ''</div>
            '' @ concat (map (renderWeekCard store) monthWeeks) @ ''
        </div>
        '')
                ''<div class="timeline">'' [0..<totalMonths]
        in html @ ''</div>'')\<close>

section \<open>The day cards in the document\<close>

text \<open>
  \<^verbatim>\<open>renderWeekCard\<close> emits the day cards of a week only when \<^verbatim>\<open>isExpanded && week._days\<close>
  (line 254); \<^verbatim>\<open>renderDayCard\<close> gives each the id \<^verbatim>\<open>day-${weekNum}-${day.day}\<close> (line 301).
\<close>

definition week_day_ids :: "Day list list \<Rightarrow> Week \<Rightarrow> (int \<times> int) list" where
  "week_day_ids store week =
     (if w_expanded week then
        (case w_days week of
           None \<Rightarrow> []
         | Some a \<Rightarrow> map (\<lambda>day. (w_week week, d_day day)) (store ! a))
      else [])"

text \<open>\<^verbatim>\<open>renderWeeklyTimeline(weeks)\<close> replaces the content of \<^verbatim>\<open>#timelineContent\<close> by
  \<^const>\<open>timeline_html\<close>; of the document, the state keeps the day cards it then holds
  (what \<^verbatim>\<open>loadDayContent\<close> looks up at line 379).\<close>

definition renderWeeklyTimeline :: "state \<Rightarrow> state" where
  "renderWeeklyTimeline s = s\<lparr>dom_days := concat (map (week_day_ids (arrays s)) (weeks s))\<rparr>"

section \<open>The disclosure controller\<close>

subsection \<open>toggleWeekExpand (lines 317-366)\<close>

definition set_week :: "nat \<Rightarrow> (Week \<Rightarrow> Week) \<Rightarrow> state \<Rightarrow> state" where
  "set_week i f s = s\<lparr>weeks := (weeks s)[i := f (weeks s ! i)]\<rparr>"

definition week_request :: "state \<Rightarrow> Week \<Rightarrow> request" where
  "week_request s week =
     WeekRequest (params_goal s) (w_week week) (w_title week)
       (case w_concepts week of None \<Rightarrow> [] | Some cs \<Rightarrow> cs) (params_model s)"

text \<open>The synchronous part, up to \<^verbatim>\<open>await fetch\<close> (line 338) or to the return.\<close>

definition toggleWeekExpand :: "state \<Rightarrow> int \<Rightarrow> state" where
  "toggleWeekExpand s weekNum =
     (case findIndex (\<lambda>w. w_week w = weekNum) (weeks s) of
        None \<Rightarrow> s
      | Some weekIndex \<Rightarrow>
          let week = weeks s ! weekIndex in
          if w_expanded week then
            renderWeeklyTimeline (set_week weekIndex (\<lambda>w. w\<lparr>w_expanded := False\<rparr>) s)
          else if w_days week = None then
            let s1 = renderWeeklyTimeline (set_week weekIndex (\<lambda>w. w\<lparr>w_loading := True\<rparr>) s)
            in s1\<lparr>requests := requests s1 @ [week_request s1 week],
                  pending := pending s1 @ [WeekFetch weekIndex]\<rparr>
          else
            renderWeeklyTimeline (set_week weekIndex (\<lambda>w. w\<lparr>w_expanded := True\<rparr>) s))"

text \<open>What the \<^verbatim>\<open>try\<close> block makes of the response (lines 350-353): the days to store, or
  the exception that reaches \<^verbatim>\<open>catch\<close>.\<close>

definition week_response_days :: "response \<Rightarrow> js_error + Day list" where
  "week_response_days r =
     (case r of
        FetchRejected \<Rightarrow> Inl TypeError
      | Http st b \<Rightarrow>
          if \<not> response_ok st then Inl (Error ''Failed to load week details'')
          else (case b of
                  NotJson \<Rightarrow> Inl SyntaxError
                | JsonNull \<Rightarrow> Inl TypeError
                | JsonObj data \<Rightarrow>
                    Inr (case j_days data of Val ds \<Rightarrow> ds | _ \<Rightarrow> [])))"

text \<open>The continuation after the \<^verbatim>\<open>await\<close>, for the week object \<open>i\<close> the call captured
  (lines 350-365). The array of the response, with the day objects as they came, is a new
  object in the store.\<close>

definition toggleWeekExpand_resume :: "state \<Rightarrow> nat \<Rightarrow> response \<Rightarrow> state" where
  "toggleWeekExpand_resume s i r =
     (case week_response_days r of
        Inr days \<Rightarrow>
          renderWeeklyTimeline
            (set_week i (\<lambda>w. w\<lparr>w_days := Some (length (arrays s)), w_loading := False,
                                w_expanded := True\<rparr>)
               (s\<lparr>arrays := arrays s @ [days]\<rparr>))
      | Inl e \<Rightarrow>
          renderWeeklyTimeline
            (set_week i (\<lambda>w. w\<lparr>w_loading := False\<rparr>)
               (s\<lparr>console := console s @ [e],
                  toasts := toasts s @ [(''Failed to load week details. Click to retry.'', True)]\<rparr>)))"

subsection \<open>loadDayContent (lines 369-410)\<close>

definition day_request :: "state \<Rightarrow> int \<Rightarrow> int \<Rightarrow> Day \<Rightarrow> request" where
  "day_request s weekNum dayNum day =
     DayRequest (params_goal s) (d_title day) ((weekNum - 1) * 7 + dayNum)
       (case d_duration_minutes day of None \<Rightarrow> 60 | Some m \<Rightarrow> if m = 0 then 60 else m)
       (or_else (d_task_type day) ''theory'')
       (params_model s)"

text \<open>The synchronous part, up to \<^verbatim>\<open>await fetch\<close> (line 386) or to a return. The spinner
  appended to the day card (line 382) adds no day card and is not tracked.\<close>

definition loadDayContent :: "state \<Rightarrow> int \<Rightarrow> int \<Rightarrow> state" where
  "loadDayContent s weekNum dayNum =
     (case find (\<lambda>w. w_week w = weekNum) (weeks s) of
        None \<Rightarrow> s
      | Some week \<Rightarrow>
          (case w_days week of
             None \<Rightarrow> s
           | Some a \<Rightarrow>
               (case findIndex (\<lambda>d. d_day d = dayNum) (arrays s ! a) of
                  None \<Rightarrow> s
                | Some j \<Rightarrow>
                    let day = arrays s ! a ! j in
                    if d_loaded day then s
                    else if (weekNum, dayNum) \<notin> set (dom_days s) then s
                    else s\<lparr>requests := requests s @ [day_request s weekNum dayNum day],
                           pending := pending s @ [DayFetch a j]\<rparr>)))"

text \<open>What the \<^verbatim>\<open>try\<close> block makes of the response (lines 399-401): the details to
  merge, or the exception that reaches \<^verbatim>\<open>catch\<close>. A \<^verbatim>\<open>null\<close> body is no error here:
  \<^verbatim>\<open>Object.assign\<close> skips a \<^verbatim>\<open>null\<close> source.\<close>

definition day_response_details :: "response \<Rightarrow> js_error + json_obj option" where
  "day_response_details r =
     (case r of
        FetchRejected \<Rightarrow> Inl TypeError
      | Http st b \<Rightarrow>
          if \<not> response_ok st then Inl (Error ''Failed to load day details'')
          else (case b of
                  NotJson \<Rightarrow> Inl SyntaxError
                | JsonNull \<Rightarrow> Inr None
                | JsonObj details \<Rightarrow> Inr (Some details)))"

text \<open>\<^verbatim>\<open>Object.assign(day, details)\<close> copies every own property of \<open>details\<close>, also one
  holding \<^verbatim>\<open>null\<close>, and leaves the others of \<open>day\<close> as they are. The details are the
  three properties of a day detail: description, table of contents, resources.\<close>

definition assign_prop :: "'a option \<Rightarrow> 'a property \<Rightarrow> 'a option" where
  "assign_prop old p = (case p of Missing \<Rightarrow> old | Null \<Rightarrow> None | Val v \<Rightarrow> Some v)"

definition Object_assign :: "Day \<Rightarrow> json_obj option \<Rightarrow> Day" where
  "Object_assign day details =
     (case details of
        None \<Rightarrow> day
      | Some ds \<Rightarrow>
          day\<lparr>d_description := assign_prop (d_description day) (j_description ds),
              d_table_of_contents :=
                assign_prop (d_table_of_contents day) (j_table_of_contents ds),
              d_resources := assign_prop (d_resources day) (j_resources ds)\<rparr>)"

text \<open>The continuation after the \<^verbatim>\<open>await\<close>, for the day object the call captured: element
  \<open>j\<close> of the array at address \<open>a\<close> (lines 399-409). The failure branch does not render.\<close>

definition loadDayContent_resume :: "state \<Rightarrow> nat \<Rightarrow> nat \<Rightarrow> response \<Rightarrow> state" where
  "loadDayContent_resume s a j r =
     (case day_response_details r of
        Inr details \<Rightarrow>
          renderWeeklyTimeline
            (s\<lparr>arrays := (arrays s)
                  [a := (arrays s ! a)
                     [j := (Object_assign (arrays s ! a ! j) details)\<lparr>d_loaded := True\<rparr>]]\<rparr>)
      | Inl e \<Rightarrow>
          s\<lparr>console := console s @ [e],
            toasts := toasts s @ [(''Failed to load day details.'', True)]\<rparr>)"

subsection \<open>handleGenerate, after the response (lines 130-140)\<close>

text \<open>
  The state after a successful outline generation (\<^verbatim>\<open>handleGenerate\<close>, lines 135-140):
  the parsed outline becomes \<^verbatim>\<open>currentCourse\<close>, with no client-only flag set on any week,
  \<^verbatim>\<open>renderCourse\<close> draws it (no week is expanded, so there is no day card) and a success
  toast is shown.
\<close>

definition new_week :: "WeekOutline \<Rightarrow> Week" where
  "new_week w =
     \<lparr>w_week = wo_week w, w_title = wo_title w, w_focus = wo_focus w,
      w_concepts = wo_concepts w, w_days = None, w_expanded = False, w_loading = False\<rparr>"

definition init_state :: "string \<Rightarrow> string \<Rightarrow> WeekOutline list \<Rightarrow> state" where
  "init_state goal model ws =
     \<lparr>weeks = map new_week ws, params_goal = goal, params_model = model, arrays = [],
      pending = [], requests = [],
      toasts = [(''Course outline generated! Click weeks to load daily breakdown.'', False)],
      console = [], dom_days = []\<rparr>"

text \<open>The error thrown for a response that is not ok (lines 131-132): a body that does
  not parse counts as \<^verbatim>\<open>{}\<close>; reading \<^verbatim>\<open>detail\<close> of a \<^verbatim>\<open>null\<close> body throws.\<close>

definition outline_error :: "nat \<Rightarrow> json_body \<Rightarrow> js_error" where
  "outline_error st b =
     (case b of
        NotJson \<Rightarrow> Error (''Server error: '' @ show_nat st)
      | JsonNull \<Rightarrow> TypeError
      | JsonObj err \<Rightarrow>
          Error (or_else (case j_detail err of Val d \<Rightarrow> Some d | _ \<Rightarrow> None)
                   (''Server error: '' @ show_nat st)))"

text \<open>The outcome of the \<^verbatim>\<open>try\<close> block: the exception that reaches \<^verbatim>\<open>catch\<close>, or the
  state of the new course. An outline without \<^verbatim>\<open>weeks\<close> shows no week card; it is the
  course with no week.\<close>

definition handleGenerate_resume :: "string \<Rightarrow> string \<Rightarrow> response \<Rightarrow> js_error + state" where
  "handleGenerate_resume goal model r =
     (case r of
        FetchRejected \<Rightarrow> Inl TypeError
      | Http st b \<Rightarrow>
          if \<not> response_ok st then Inl (outline_error st b)
          else (case b of
                  NotJson \<Rightarrow> Inl SyntaxError
                | JsonNull \<Rightarrow> Inl TypeError
                | JsonObj course \<Rightarrow>
                    Inr (init_state goal model
                           (case j_weeks course of Val ws \<Rightarrow> ws | _ \<Rightarrow> []))))"

subsection \<open>The event loop\<close>

text \<open>
  The page is single-threaded: between two suspension points a handler runs to completion.
  An event is a click on a week header, a click on a day card, or the arrival of the
  response to the pending fetch at position \<open>k\<close> (responses may arrive in any order). An
  arrival for a position that holds no pending fetch of that kind cannot happen and
  changes nothing. The events are those of one course: generating again replaces
  \<^verbatim>\<open>currentCourse\<close> wholesale and starts from \<open>init_state\<close>.
\<close>

datatype event =
    Toggle int
  | LoadDay int int
  | WeekResponse nat response
  | DayResponse nat response

definition remove_nth :: "nat \<Rightarrow> 'a list \<Rightarrow> 'a list" where
  "remove_nth k xs = take k xs @ drop (Suc k) xs"

definition task_at :: "state \<Rightarrow> nat \<Rightarrow> task option" where
  "task_at s k = (if k < length (pending s) then Some (pending s ! k) else None)"

fun step :: "state \<Rightarrow> event \<Rightarrow> state" where
  "step s (Toggle weekNum) = toggleWeekExpand s weekNum"
| "step s (LoadDay weekNum dayNum) = loadDayContent s weekNum dayNum"
| "step s (WeekResponse k r) =
     (case task_at s k of
        Some (WeekFetch i) \<Rightarrow>
          toggleWeekExpand_resume (s\<lparr>pending := remove_nth k (pending s)\<rparr>) i r
      | _ \<Rightarrow> s)"
| "step s (DayResponse k r) =
     (case task_at s k of
        Some (DayFetch a j) \<Rightarrow>
          loadDayContent_resume (s\<lparr>pending := remove_nth k (pending s)\<rparr>) a j r
      | _ \<Rightarrow> s)"

definition run :: "state \<Rightarrow> event list \<Rightarrow> state" where
  "run = foldl step"

section \<open>The properties of the specification\<close>

text \<open>\<^verbatim>\<open>w._expanded == true\<close> implies \<^verbatim>\<open>w._days != null\<close>, for every week of the course.\<close>

definition expanded_inv :: "state \<Rightarrow> bool" where
  "expanded_inv s \<longleftrightarrow> (\<forall>w \<in> set (weeks s). w_expanded w \<longrightarrow> w_days w \<noteq> None)"



text \<open>Every \<^verbatim>\<open>_days\<close> reference of the course points into the store.\<close>

definition refs_ok :: "state \<Rightarrow> bool" where
  "refs_ok s \<longleftrightarrow> (\<forall>w \<in> set (weeks s). \<forall>a. w_days w = Some a \<longrightarrow> a < length (arrays s))"





section \<open>A sample session\<close>

text \<open>A two-week outline for the goal "Learn Rust", the responses of the backend used
  below, and states the session passes through.\<close>

definition ex_week1 :: WeekOutline where
  "ex_week1 = \<lparr>wo_week = 1, wo_title = Some ''Ownership'', wo_focus = Some ''theory'',
                wo_concepts = Some [''moves'', ''borrows'']\<rparr>"

definition ex_week2 :: WeekOutline where
  "ex_week2 = \<lparr>wo_week = 2, wo_title = Some ''Traits'', wo_focus = None, wo_concepts = None\<rparr>"

definition ex_start :: state where
  "ex_start = init_state ''Learn Rust'' ''llama3'' [ex_week1, ex_week2]"

definition ex_day :: "int \<Rightarrow> Day" where
  "ex_day n = \<lparr>d_day = n, d_title = Some ''Lesson'', d_concepts = None,
               d_task_type = Some ''practice'', d_duration_minutes = Some 45,
               d_loaded = False, d_description = None, d_table_of_contents = None,
               d_resources = None\<rparr>"

text \<open>The body \<^verbatim>\<open>{}\<close>.\<close>

definition ex_json :: json_obj where
  "ex_json = \<lparr>j_detail = Missing, j_weeks = Missing, j_days = Missing,
              j_description = Missing, j_table_of_contents = Missing, j_resources = Missing\<rparr>"

definition ex_week_ok :: response where
  "ex_week_ok = Http 200 (JsonObj (ex_json\<lparr>j_days := Val [ex_day 1, ex_day 2, ex_day 3]\<rparr>))"

definition ex_day_ok :: response where
  "ex_day_ok = Http 200 (JsonObj (ex_json\<lparr>j_description := Val ''Read chapter 4''\<rparr>))"

definition ex_day_bare :: response where
  "ex_day_bare = Http 200 (JsonObj ex_json)"

definition ex_error :: response where
  "ex_error = Http 500 (JsonObj (ex_json\<lparr>j_detail := Val ''model not found''\<rparr>))"

text \<open>Week 2 clicked once: its fetch is pending.\<close>

definition ex_loading :: state where
  "ex_loading = run ex_start [Toggle 2]"

text \<open>Week 2 expanded with three days.\<close>

definition ex_expanded :: state where
  "ex_expanded = run ex_start [Toggle 2, WeekResponse 0 ex_week_ok]"

text \<open>Day 3 of week 2 loaded.\<close>

definition ex_loaded :: state where
  "ex_loaded = run ex_expanded [LoadDay 2 3, DayResponse 0 ex_day_ok]"

text \<open>Week 2 clicked twice before any response; then the first response arrives, a
  success.\<close>

definition ex_twice :: state where
  "ex_twice = run ex_start [Toggle 2, Toggle 2, WeekResponse 0 ex_week_ok]"

text \<open>A week whose title and focus, written by the model, hold markup.\<close>

definition ex_markup_week :: Week where
  "ex_markup_week =
     \<lparr>w_week = 1, w_title = Some ''<script>alert(1)</script>'',
      w_focus = Some ''<script>alert(1)</script>'', w_concepts = None, w_days = None,
      w_expanded = False, w_loading = False\<rparr>"

section \<open>Proofs\<close>

subsection \<open>Lists and lookups\<close>

lemma findIndex_Some: "findIndex P xs = Some i \<Longrightarrow> i < length xs \<and> P (xs ! i)"
proof (induction xs arbitrary: i)
  case Nil
  then show ?case by simp
next
  case (Cons x xs)
  then show ?case by (cases "P x") auto
qed

lemma find_findIndex: "find P xs = map_option (\<lambda>i. xs ! i) (findIndex P xs)"
  by (induction xs) (auto simp: option.map_comp comp_def)

lemma findIndex_update:
  "P (f (xs ! i)) = P (xs ! i) \<Longrightarrow> findIndex P (xs[i := f (xs ! i)]) = findIndex P xs"
proof (induction xs arbitrary: i)
  case Nil
  then show ?case by simp
next
  case (Cons x xs)
  then show ?case by (cases i) auto
qed


lemmas ex_defs = ex_week1_def ex_week2_def ex_start_def ex_day_def ex_json_def ex_week_ok_def
  ex_day_ok_def ex_day_bare_def ex_error_def ex_loading_def ex_expanded_def ex_loaded_def
  ex_twice_def

lemmas controller_defs = run_def init_state_def new_week_def toggleWeekExpand_def
  toggleWeekExpand_resume_def loadDayContent_def loadDayContent_resume_def set_week_def
  renderWeeklyTimeline_def week_day_ids_def week_request_def day_request_def
  week_response_days_def day_response_details_def response_ok_def task_at_def remove_nth_def
  Object_assign_def assign_prop_def or_else_def

subsection \<open>What a toggle sends\<close>

lemma toggle_effect:
  assumes "findIndex (\<lambda>w. w_week w = weekNum) (weeks s) = Some i"
  shows "requests (toggleWeekExpand s weekNum) =
           (if \<not> w_expanded (weeks s ! i) \<and> w_days (weeks s ! i) = None
            then requests s @ [week_request s (weeks s ! i)] else requests s) \<and>
         pending (toggleWeekExpand s weekNum) =
           (if \<not> w_expanded (weeks s ! i) \<and> w_days (weeks s ! i) = None
            then pending s @ [WeekFetch i] else pending s)"
  using assms
  by (simp add: toggleWeekExpand_def Let_def renderWeeklyTimeline_def set_week_def week_request_def)

text \<open>
  C1, as stated, fails. Week 1 of the sample course is clicked twice before any response
  arrives: after the first click the week is loading and one fetch is pending; the second
  click sends the same request again, and two fetches for the week are in flight.
\<close>

theorem second_toggle_refetches:
  "w_loading (weeks (toggleWeekExpand ex_start 1) ! 0) \<and>
   pending (toggleWeekExpand ex_start 1) = [WeekFetch 0] \<and>
   requests (toggleWeekExpand ex_start 1) =
     [WeekRequest ''Learn Rust'' 1 (Some ''Ownership'') [''moves'', ''borrows''] ''llama3''] \<and>
   pending (toggleWeekExpand (toggleWeekExpand ex_start 1) 1) = [WeekFetch 0, WeekFetch 0] \<and>
   requests (toggleWeekExpand (toggleWeekExpand ex_start 1) 1) =
     [WeekRequest ''Learn Rust'' 1 (Some ''Ownership'') [''moves'', ''borrows''] ''llama3'',
      WeekRequest ''Learn Rust'' 1 (Some ''Ownership'') [''moves'', ''borrows''] ''llama3'']"
  by (simp add: ex_defs controller_defs)

text \<open>
  C1, amended: a toggle on a week of the course sends a week-detail fetch exactly when the
  week is not expanded and has no \<^verbatim>\<open>_days\<close>. Neither \<^verbatim>\<open>_loading\<close> nor the pending fetches are
  consulted, so a toggle on a week that is loading sends a further fetch; a toggle on a week
  whose \<^verbatim>\<open>_days\<close> is set sends none.
\<close>

theorem toggle_fetch_condition:
  assumes "findIndex (\<lambda>w. w_week w = weekNum) (weeks s) = Some i"
  shows "requests (toggleWeekExpand s weekNum) =
           (if \<not> w_expanded (weeks s ! i) \<and> w_days (weeks s ! i) = None
            then requests s @ [week_request s (weeks s ! i)] else requests s) \<and>
         pending (toggleWeekExpand s weekNum) =
           (if \<not> w_expanded (weeks s ! i) \<and> w_days (weeks s ! i) = None
            then pending s @ [WeekFetch i] else pending s)"
  using assms by (rule toggle_effect)

theorem toggle_fetch_condition_witness:
  "findIndex (\<lambda>w. w_week w = 2) (weeks ex_loading) = Some 1 \<and>
   w_loading (weeks ex_loading ! 1) \<and>
   pending ex_loading = [WeekFetch 1] \<and>
   pending (toggleWeekExpand ex_loading 2) = [WeekFetch 1, WeekFetch 1] \<and>
   requests (toggleWeekExpand ex_loading 2) =
     [WeekRequest ''Learn Rust'' 2 (Some ''Traits'') [] ''llama3'',
      WeekRequest ''Learn Rust'' 2 (Some ''Traits'') [] ''llama3'']"
proof -
  have idx: "findIndex (\<lambda>w. w_week w = 2) (weeks ex_loading) = Some 1"
    by (simp add: ex_defs controller_defs)
  show ?thesis
    using idx toggle_fetch_condition [OF idx] by (simp add: ex_defs controller_defs)
qed

subsection \<open>An expanded week has its days\<close>

lemma expanded_inv_set_week:
  assumes "expanded_inv s"
    and "\<And>w. w \<in> set (weeks s) \<Longrightarrow> w_expanded (f w) \<Longrightarrow> w_days (f w) \<noteq> None"
  shows "expanded_inv (set_week i f s)"
proof (cases "i < length (weeks s)")
  case True
  then have "weeks s ! i \<in> set (weeks s)" by simp
  with assms(2) have fw: "w_expanded (f (weeks s ! i)) \<longrightarrow> w_days (f (weeks s ! i)) \<noteq> None"
    by blast
  have "set ((weeks s)[i := f (weeks s ! i)]) \<subseteq> insert (f (weeks s ! i)) (set (weeks s))"
    by (rule set_update_subset_insert)
  with assms(1) fw show ?thesis
    unfolding expanded_inv_def set_week_def by auto
next
  case False
  with assms(1) show ?thesis
    by (simp add: expanded_inv_def set_week_def list_update_beyond)
qed

lemma expanded_inv_render [simp]: "expanded_inv (renderWeeklyTimeline s) = expanded_inv s"
  by (simp add: expanded_inv_def renderWeeklyTimeline_def)

lemma expanded_inv_frame:
  "weeks s' = weeks s \<Longrightarrow> expanded_inv s' = expanded_inv s"
  by (simp add: expanded_inv_def)

lemma expanded_inv_toggle:
  assumes "expanded_inv s"
  shows "expanded_inv (toggleWeekExpand s weekNum)"
proof (cases "findIndex (\<lambda>w. w_week w = weekNum) (weeks s)")
  case None
  with assms show ?thesis by (simp add: toggleWeekExpand_def)
next
  case (Some i)
  then have i: "i < length (weeks s)" by (simp add: findIndex_Some)
  have off: "expanded_inv (set_week i (\<lambda>w. w\<lparr>w_expanded := False\<rparr>) s)"
    using assms by (rule expanded_inv_set_week) simp
  have loading: "expanded_inv (set_week i (\<lambda>w. w\<lparr>w_loading := True\<rparr>) s)"
    using assms by (rule expanded_inv_set_week) (insert assms, auto simp: expanded_inv_def)
  have on: "expanded_inv (set_week i (\<lambda>w. w\<lparr>w_expanded := True\<rparr>) s)"
    if "w_days (weeks s ! i) \<noteq> None"
    using assms that i
    by (auto simp: expanded_inv_def set_week_def dest!: subsetD [OF set_update_subset_insert])
  show ?thesis
    using Some off loading on
    by (simp add: toggleWeekExpand_def Let_def expanded_inv_frame [of "_\<lparr>requests := _, pending := _\<rparr>"])
qed

lemma expanded_inv_toggle_resume:
  assumes "expanded_inv s"
  shows "expanded_inv (toggleWeekExpand_resume s i r)"
proof (cases "week_response_days r")
  case (Inl e)
  have "expanded_inv (set_week i (\<lambda>w. w\<lparr>w_loading := False\<rparr>)
          (s\<lparr>console := console s @ [e],
             toasts := toasts s @ [(''Failed to load week details. Click to retry.'', True)]\<rparr>))"
    by (rule expanded_inv_set_week) (insert assms, auto simp: expanded_inv_def)
  with Inl show ?thesis by (simp add: toggleWeekExpand_resume_def)
next
  case (Inr days)
  have "expanded_inv (set_week i (\<lambda>w. w\<lparr>w_days := Some (length (arrays s)), w_loading := False,
                                w_expanded := True\<rparr>) (s\<lparr>arrays := arrays s @ [days]\<rparr>))"
    by (rule expanded_inv_set_week) (insert assms, auto simp: expanded_inv_def)
  with Inr show ?thesis by (simp add: toggleWeekExpand_resume_def)
qed

lemma weeks_loadDayContent [simp]: "weeks (loadDayContent s weekNum dayNum) = weeks s"
  by (simp add: loadDayContent_def Let_def split: option.splits)

lemma weeks_loadDayContent_resume [simp]: "weeks (loadDayContent_resume s a j r) = weeks s"
  by (simp add: loadDayContent_resume_def renderWeeklyTimeline_def split: sum.splits)

lemma expanded_inv_step:
  assumes "expanded_inv s"
  shows "expanded_inv (step s e)"
proof (cases e)
  case (Toggle n)
  with assms show ?thesis by (simp add: expanded_inv_toggle)
next
  case (LoadDay w d)
  with assms show ?thesis by (simp add: expanded_inv_frame [of "loadDayContent s w d" s])
next
  case (WeekResponse k r)
  have "expanded_inv (s\<lparr>pending := remove_nth k (pending s)\<rparr>)"
    using assms by (simp add: expanded_inv_def)
  then have "expanded_inv (toggleWeekExpand_resume (s\<lparr>pending := remove_nth k (pending s)\<rparr>) i r)" for i
    by (rule expanded_inv_toggle_resume)
  with assms WeekResponse show ?thesis
    by (simp split: option.splits task.splits)
next
  case (DayResponse k r)
  with assms show ?thesis
    by (simp add: expanded_inv_def split: option.splits task.splits)
qed

lemma expanded_inv_run: "expanded_inv s \<Longrightarrow> expanded_inv (run s evs)"
  unfolding run_def by (induction evs arbitrary: s) (simp_all add: expanded_inv_step)

lemma expanded_inv_init: "expanded_inv (init_state goal model ws)"
  by (simp add: expanded_inv_def init_state_def new_week_def)

text \<open>
  C2: in every state the course reaches from a fresh outline by clicks on weeks, clicks on
  days and responses arriving in any order, each week with \<^verbatim>\<open>_expanded\<close> set has its
  \<^verbatim>\<open>_days\<close>; every step of the controller and the renderer preserve this.
\<close>

theorem expanded_implies_days:
  "expanded_inv (run (init_state goal model ws) evs) \<and>
   (expanded_inv s \<longrightarrow> expanded_inv (step s e) \<and> expanded_inv (renderWeeklyTimeline s))"
  by (simp add: expanded_inv_run expanded_inv_init expanded_inv_step)

theorem expanded_implies_days_witness:
  "expanded_inv ex_expanded \<and>
   w_expanded (weeks ex_expanded ! 1) \<and> w_days (weeks ex_expanded ! 1) = Some 0 \<and>
   expanded_inv (step ex_expanded (Toggle 2)) \<and>
   expanded_inv (renderWeeklyTimeline ex_expanded)"
proof -
  have reached: "ex_expanded = run (init_state ''Learn Rust'' ''llama3'' [ex_week1, ex_week2])
      [Toggle 2, WeekResponse 0 ex_week_ok]"
    by (simp add: ex_expanded_def ex_start_def)
  have inv: "expanded_inv ex_expanded"
    using expanded_implies_days
      [of "''Learn Rust''" "''llama3''" "[ex_week1, ex_week2]"
        "[Toggle 2, WeekResponse 0 ex_week_ok]"]
    by (simp add: reached)
  moreover have "w_expanded (weeks ex_expanded ! 1) \<and> w_days (weeks ex_expanded ! 1) = Some 0"
    by (simp add: ex_defs controller_defs)
  ultimately show ?thesis
    using expanded_implies_days [of _ _ _ _ ex_expanded "Toggle 2"] by simp
qed

subsection \<open>A loaded day has its description\<close>

lemma arrays_toggle [simp]: "arrays (toggleWeekExpand s weekNum) = arrays s"
  by (simp add: toggleWeekExpand_def Let_def renderWeeklyTimeline_def set_week_def
      split: option.splits)

lemma arrays_loadDayContent [simp]: "arrays (loadDayContent s weekNum dayNum) = arrays s"
  by (simp add: loadDayContent_def Let_def split: option.splits)

lemma length_arrays_loadDayContent_resume [simp]:
  "length (arrays (loadDayContent_resume s a j r)) = length (arrays s)"
  by (simp add: loadDayContent_resume_def renderWeeklyTimeline_def split: sum.splits)


lemma refs_ok_render [simp]: "refs_ok (renderWeeklyTimeline s) = refs_ok s"
  by (simp add: refs_ok_def renderWeeklyTimeline_def)




















subsection \<open>Errors of responses that are not ok\<close>

text \<open>
  C4, as stated, fails. The week and the day endpoint answer 500 with the body
  \<^verbatim>\<open>{"detail": "model not found"}\<close>; the error raised is the fixed one of lines 350 and
  399, which carries neither the message of the backend nor the status.
\<close>

theorem lazy_fetch_errors_are_fixed:
  "\<not> response_ok 500 \<and>
   j_detail (ex_json\<lparr>j_detail := Val ''model not found''\<rparr>) = Val ''model not found'' \<and>
   week_response_days ex_error = Inl (Error ''Failed to load week details'') \<and>
   week_response_days ex_error \<noteq> Inl (Error ''model not found'') \<and>
   day_response_details ex_error = Inl (Error ''Failed to load day details'') \<and>
   day_response_details ex_error \<noteq> Inl (Error ''model not found'')"
  by (simp add: ex_error_def ex_json_def week_response_days_def day_response_details_def
      response_ok_def)

text \<open>
  C4, amended: on a response that is not 2xx, outline generation raises an error carrying
  the \<^verbatim>\<open>detail\<close> of the body when the body is an object whose \<^verbatim>\<open>detail\<close> is a non-empty
  string; the message \<^verbatim>\<open>Server error: <status>\<close> when the body does not parse or is an
  object whose \<^verbatim>\<open>detail\<close> is absent, \<^verbatim>\<open>null\<close> or empty; and a \<^verbatim>\<open>TypeError\<close> when the body is
  \<^verbatim>\<open>null\<close>. Week generation and day generation raise the fixed errors
  \<^verbatim>\<open>Failed to load week details\<close> and \<^verbatim>\<open>Failed to load day details\<close>, whatever the body
  and the status; their continuations log that error and show the fixed toasts
  "Failed to load week details. Click to retry." and "Failed to load day details.".
\<close>

theorem non_ok_errors:
  assumes "\<not> response_ok st"
  shows "handleGenerate_resume goal model (Http st (JsonObj (err\<lparr>j_detail := Val d\<rparr>))) =
           Inl (Error (if d \<noteq> [] then d else ''Server error: '' @ show_nat st)) \<and>
         handleGenerate_resume goal model (Http st (JsonObj (err\<lparr>j_detail := Missing\<rparr>))) =
           Inl (Error (''Server error: '' @ show_nat st)) \<and>
         handleGenerate_resume goal model (Http st (JsonObj (err\<lparr>j_detail := Null\<rparr>))) =
           Inl (Error (''Server error: '' @ show_nat st)) \<and>
         handleGenerate_resume goal model (Http st NotJson) =
           Inl (Error (''Server error: '' @ show_nat st)) \<and>
         handleGenerate_resume goal model (Http st JsonNull) = Inl TypeError \<and>
         week_response_days (Http st b) = Inl (Error ''Failed to load week details'') \<and>
         day_response_details (Http st b) = Inl (Error ''Failed to load day details'') \<and>
         console (toggleWeekExpand_resume s i (Http st b)) =
           console s @ [Error ''Failed to load week details''] \<and>
         toasts (toggleWeekExpand_resume s i (Http st b)) =
           toasts s @ [(''Failed to load week details. Click to retry.'', True)] \<and>
         console (loadDayContent_resume s a j (Http st b)) =
           console s @ [Error ''Failed to load day details''] \<and>
         toasts (loadDayContent_resume s a j (Http st b)) =
           toasts s @ [(''Failed to load day details.'', True)]"
  using assms
  by (simp add: handleGenerate_resume_def outline_error_def or_else_def week_response_days_def
      day_response_details_def toggleWeekExpand_resume_def loadDayContent_resume_def
      renderWeeklyTimeline_def set_week_def del: show_nat.simps)

theorem non_ok_errors_witness:
  "\<not> response_ok 500 \<and>
   handleGenerate_resume ''Learn Rust'' ''llama3''
       (Http 500 (JsonObj (ex_json\<lparr>j_detail := Val ''model not found''\<rparr>))) =
     Inl (Error ''model not found'') \<and>
   handleGenerate_resume ''Learn Rust'' ''llama3'' (Http 500 (JsonObj ex_json)) =
     Inl (Error ''Server error: 500'') \<and>
   handleGenerate_resume ''Learn Rust'' ''llama3'' (Http 500 NotJson) =
     Inl (Error ''Server error: 500'') \<and>
   handleGenerate_resume ''Learn Rust'' ''llama3'' (Http 500 JsonNull) = Inl TypeError \<and>
   week_response_days (Http 500 NotJson) = Inl (Error ''Failed to load week details'') \<and>
   day_response_details (Http 500 NotJson) = Inl (Error ''Failed to load day details'') \<and>
   toasts (toggleWeekExpand_resume ex_start 1 (Http 500 NotJson)) =
     toasts ex_start @ [(''Failed to load week details. Click to retry.'', True)] \<and>
   toasts (loadDayContent_resume ex_start 0 0 (Http 500 NotJson)) =
     toasts ex_start @ [(''Failed to load day details.'', True)]"
proof -
  have st: "\<not> response_ok 500" by (simp add: response_ok_def)
  have same: "ex_json\<lparr>j_detail := Missing\<rparr> = ex_json" by (simp add: ex_json_def)
  show ?thesis
    using st same non_ok_errors [where st = 500 and goal = "''Learn Rust''" and model = "''llama3''"
        and err = ex_json and d = "''model not found''" and b = NotJson and s = ex_start
        and i = 1 and a = 0 and j = 0]
    by simp
qed

subsection \<open>A failed week fetch\<close>

lemma week_failure_effect:
  assumes "task_at s k = Some (WeekFetch i)"
    and "findIndex (\<lambda>w. w_week w = weekNum) (weeks s) = Some i"
    and "isl (week_response_days r)"
  shows "weeks (step s (WeekResponse k r)) = (weeks s)[i := (weeks s ! i)\<lparr>w_loading := False\<rparr>] \<and>
         \<not> w_loading (weeks (step s (WeekResponse k r)) ! i) \<and>
         w_days (weeks (step s (WeekResponse k r)) ! i) = w_days (weeks s ! i) \<and>
         w_expanded (weeks (step s (WeekResponse k r)) ! i) = w_expanded (weeks s ! i) \<and>
         arrays (step s (WeekResponse k r)) = arrays s \<and>
         requests (step s (WeekResponse k r)) = requests s \<and>
         pending (step s (WeekResponse k r)) = remove_nth k (pending s) \<and>
         toasts (step s (WeekResponse k r)) =
           toasts s @ [(''Failed to load week details. Click to retry.'', True)] \<and>
         params_goal (step s (WeekResponse k r)) = params_goal s \<and>
         params_model (step s (WeekResponse k r)) = params_model s \<and>
         (w_days (weeks s ! i) = None \<and> \<not> w_expanded (weeks s ! i) \<longrightarrow>
            requests (toggleWeekExpand (step s (WeekResponse k r)) weekNum) =
              requests s @ [week_request s (weeks s ! i)] \<and>
            pending (toggleWeekExpand (step s (WeekResponse k r)) weekNum) =
              remove_nth k (pending s) @ [WeekFetch i]) \<and>
         (w_days (weeks s ! i) \<noteq> None \<longrightarrow>
            requests (toggleWeekExpand (step s (WeekResponse k r)) weekNum) = requests s)"
proof -
  let ?s' = "step s (WeekResponse k r)"
  from assms(2) have i: "i < length (weeks s)" by (simp add: findIndex_Some)
  from assms(3) obtain e where e: "week_response_days r = Inl e" by (cases "week_response_days r") auto
  have s': "?s' = renderWeeklyTimeline
      (set_week i (\<lambda>w. w\<lparr>w_loading := False\<rparr>)
        (s\<lparr>pending := remove_nth k (pending s), console := console s @ [e],
           toasts := toasts s @ [(''Failed to load week details. Click to retry.'', True)]\<rparr>))"
    using assms(1) e by (simp add: toggleWeekExpand_resume_def)
  have fields: "weeks ?s' = (weeks s)[i := (weeks s ! i)\<lparr>w_loading := False\<rparr>]"
    "arrays ?s' = arrays s" "requests ?s' = requests s"
    "pending ?s' = remove_nth k (pending s)"
    "toasts ?s' = toasts s @ [(''Failed to load week details. Click to retry.'', True)]"
    "params_goal ?s' = params_goal s" "params_model ?s' = params_model s"
    unfolding s' by (simp_all add: renderWeeklyTimeline_def set_week_def)
  have idx: "findIndex (\<lambda>w. w_week w = weekNum) (weeks ?s') = Some i"
    using assms(2) findIndex_update [of "\<lambda>w. w_week w = weekNum" "\<lambda>w. w\<lparr>w_loading := False\<rparr>" "weeks s" i]
    by (simp add: fields del: step.simps)
  have retry: "requests (toggleWeekExpand ?s' weekNum) = requests s @ [week_request s (weeks s ! i)] \<and>
      pending (toggleWeekExpand ?s' weekNum) = remove_nth k (pending s) @ [WeekFetch i]"
    if "w_days (weeks s ! i) = None" "\<not> w_expanded (weeks s ! i)"
    using toggle_effect [OF idx] that i
    by (simp add: fields week_request_def del: step.simps)
  have quiet: "requests (toggleWeekExpand ?s' weekNum) = requests s"
    if "w_days (weeks s ! i) \<noteq> None"
    using toggle_effect [OF idx] that i
    by (simp add: fields del: step.simps)
  show ?thesis
    using i retry quiet by (simp add: fields del: step.simps)
qed

text \<open>
  C5, as stated, fails. Week 2 of the sample course is clicked twice before any response,
  so two fetches for it are pending. The first response is a success: the week is expanded
  with its days. The second response is a 500: \<^verbatim>\<open>_loading\<close> is cleared and the retry toast
  is shown, but the week is not in the state it had before the fetch: it has its days and is
  expanded, and the next toggle on it collapses it and sends nothing.
\<close>

theorem failed_fetch_leaves_week_expanded:
  "task_at ex_twice 0 = Some (WeekFetch 1) \<and>
   isl (week_response_days ex_error) \<and>
   \<not> w_loading (weeks (step ex_twice (WeekResponse 0 ex_error)) ! 1) \<and>
   w_days (weeks (step ex_twice (WeekResponse 0 ex_error)) ! 1) = Some 0 \<and>
   w_expanded (weeks (step ex_twice (WeekResponse 0 ex_error)) ! 1) \<and>
   toasts (step ex_twice (WeekResponse 0 ex_error)) =
     toasts ex_start @ [(''Failed to load week details. Click to retry.'', True)] \<and>
   requests (toggleWeekExpand (step ex_twice (WeekResponse 0 ex_error)) 2) =
     requests (step ex_twice (WeekResponse 0 ex_error)) \<and>
   \<not> w_expanded (weeks (toggleWeekExpand (step ex_twice (WeekResponse 0 ex_error)) 2) ! 1)"
  by (simp add: ex_defs controller_defs)

text \<open>
  C5, amended: when the response to a week fetch is a failure (the fetch is rejected, the
  status is not 2xx, or the body does not parse), the continuation clears \<^verbatim>\<open>_loading\<close> of
  that week, shows the toast "Failed to load week details. Click to retry." and changes
  nothing else of the course: \<^verbatim>\<open>_days\<close>, \<^verbatim>\<open>_expanded\<close>, the other weeks, the stored days
  and the request log are as they were when the response arrived. If the week then has no
  \<^verbatim>\<open>_days\<close> and is collapsed, the next toggle on it sends the fetch again; if it has its
  \<^verbatim>\<open>_days\<close> (another fetch for it succeeded meanwhile), the next toggle sends nothing. In
  particular a toggle on a collapsed week without days, followed directly by the failure of
  its fetch, leaves the week as it was before the toggle, with \<^verbatim>\<open>_loading\<close> false, and a
  further toggle on it sends the same request again.
\<close>

theorem week_fetch_failure:
  assumes "findIndex (\<lambda>w. w_week w = weekNum) (weeks s) = Some i"
    and "isl (week_response_days r)"
  shows "(task_at s k = Some (WeekFetch i) \<longrightarrow>
            weeks (step s (WeekResponse k r)) =
              (weeks s)[i := (weeks s ! i)\<lparr>w_loading := False\<rparr>] \<and>
            \<not> w_loading (weeks (step s (WeekResponse k r)) ! i) \<and>
            w_days (weeks (step s (WeekResponse k r)) ! i) = w_days (weeks s ! i) \<and>
            w_expanded (weeks (step s (WeekResponse k r)) ! i) = w_expanded (weeks s ! i) \<and>
            arrays (step s (WeekResponse k r)) = arrays s \<and>
            requests (step s (WeekResponse k r)) = requests s \<and>
            pending (step s (WeekResponse k r)) = remove_nth k (pending s) \<and>
            toasts (step s (WeekResponse k r)) =
              toasts s @ [(''Failed to load week details. Click to retry.'', True)] \<and>
            (w_days (weeks s ! i) = None \<and> \<not> w_expanded (weeks s ! i) \<longrightarrow>
               requests (toggleWeekExpand (step s (WeekResponse k r)) weekNum) =
                 requests s @ [week_request s (weeks s ! i)]) \<and>
            (w_days (weeks s ! i) \<noteq> None \<longrightarrow>
               requests (toggleWeekExpand (step s (WeekResponse k r)) weekNum) = requests s)) \<and>
         (w_days (weeks s ! i) = None \<and> \<not> w_expanded (weeks s ! i) \<longrightarrow>
            weeks (run s [Toggle weekNum, WeekResponse (length (pending s)) r]) =
              (weeks s)[i := (weeks s ! i)\<lparr>w_loading := False\<rparr>] \<and>
            (\<not> w_loading (weeks s ! i) \<longrightarrow>
               weeks (run s [Toggle weekNum, WeekResponse (length (pending s)) r]) = weeks s) \<and>
            arrays (run s [Toggle weekNum, WeekResponse (length (pending s)) r]) = arrays s \<and>
            pending (run s [Toggle weekNum, WeekResponse (length (pending s)) r]) = pending s \<and>
            requests (run s [Toggle weekNum, WeekResponse (length (pending s)) r]) =
              requests s @ [week_request s (weeks s ! i)] \<and>
            toasts (run s [Toggle weekNum, WeekResponse (length (pending s)) r]) =
              toasts s @ [(''Failed to load week details. Click to retry.'', True)] \<and>
            requests (run s [Toggle weekNum, WeekResponse (length (pending s)) r, Toggle weekNum]) =
              requests s @ [week_request s (weeks s ! i), week_request s (weeks s ! i)])"
proof (intro conjI impI)
  assume "task_at s k = Some (WeekFetch i)"
  from week_failure_effect [OF this assms]
  show "weeks (step s (WeekResponse k r)) = (weeks s)[i := (weeks s ! i)\<lparr>w_loading := False\<rparr>]"
    and "\<not> w_loading (weeks (step s (WeekResponse k r)) ! i)"
    and "w_days (weeks (step s (WeekResponse k r)) ! i) = w_days (weeks s ! i)"
    and "w_expanded (weeks (step s (WeekResponse k r)) ! i) = w_expanded (weeks s ! i)"
    and "arrays (step s (WeekResponse k r)) = arrays s"
    and "requests (step s (WeekResponse k r)) = requests s"
    and "pending (step s (WeekResponse k r)) = remove_nth k (pending s)"
    and "toasts (step s (WeekResponse k r)) =
           toasts s @ [(''Failed to load week details. Click to retry.'', True)]"
    and "w_days (weeks s ! i) = None \<and> \<not> w_expanded (weeks s ! i) \<Longrightarrow>
           requests (toggleWeekExpand (step s (WeekResponse k r)) weekNum) =
             requests s @ [week_request s (weeks s ! i)]"
    and "w_days (weeks s ! i) \<noteq> None \<Longrightarrow>
           requests (toggleWeekExpand (step s (WeekResponse k r)) weekNum) = requests s"
    by blast+
next
  assume pre: "w_days (weeks s ! i) = None \<and> \<not> w_expanded (weeks s ! i)"
  let ?s1 = "toggleWeekExpand s weekNum"
  let ?k = "length (pending s)"
  let ?s2 = "step ?s1 (WeekResponse ?k r)"
  from assms(1) have i: "i < length (weeks s)" by (simp add: findIndex_Some)
  have s1: "weeks ?s1 = (weeks s)[i := (weeks s ! i)\<lparr>w_loading := True\<rparr>]"
    "arrays ?s1 = arrays s" "toasts ?s1 = toasts s"
    "requests ?s1 = requests s @ [week_request s (weeks s ! i)]"
    "pending ?s1 = pending s @ [WeekFetch i]"
    "params_goal ?s1 = params_goal s" "params_model ?s1 = params_model s"
    using assms(1) pre
    by (simp_all add: toggleWeekExpand_def Let_def renderWeeklyTimeline_def set_week_def
        week_request_def)
  have task: "task_at ?s1 ?k = Some (WeekFetch i)"
    by (simp add: task_at_def s1)
  have idx: "findIndex (\<lambda>w. w_week w = weekNum) (weeks ?s1) = Some i"
    using assms(1) findIndex_update [of "\<lambda>w. w_week w = weekNum" "\<lambda>w. w\<lparr>w_loading := True\<rparr>" "weeks s" i]
    by (simp add: s1)
  note eff = week_failure_effect [OF task idx assms(2)]
  have runs: "run s [Toggle weekNum, WeekResponse ?k r] = ?s2"
    "run s [Toggle weekNum, WeekResponse ?k r, Toggle weekNum] = toggleWeekExpand ?s2 weekNum"
    by (simp_all add: run_def)
  have weeks2: "weeks ?s2 = (weeks s)[i := (weeks s ! i)\<lparr>w_loading := False\<rparr>]"
    using eff i by (simp add: s1 del: step.simps)
  show "weeks (run s [Toggle weekNum, WeekResponse ?k r]) =
          (weeks s)[i := (weeks s ! i)\<lparr>w_loading := False\<rparr>]"
    unfolding runs by (rule weeks2)
  show "weeks (run s [Toggle weekNum, WeekResponse ?k r]) = weeks s"
    if "\<not> w_loading (weeks s ! i)"
    unfolding runs weeks2 using that i by (simp add: list_update_same_conv)
  show "arrays (run s [Toggle weekNum, WeekResponse ?k r]) = arrays s"
    unfolding runs using eff by (simp add: s1 del: step.simps)
  show "pending (run s [Toggle weekNum, WeekResponse ?k r]) = pending s"
    unfolding runs using eff by (simp add: s1 remove_nth_def del: step.simps)
  show "requests (run s [Toggle weekNum, WeekResponse ?k r]) =
          requests s @ [week_request s (weeks s ! i)]"
    unfolding runs using eff by (simp add: s1 del: step.simps)
  show "toasts (run s [Toggle weekNum, WeekResponse ?k r]) =
          toasts s @ [(''Failed to load week details. Click to retry.'', True)]"
    unfolding runs using eff by (simp add: s1 del: step.simps)
  show "requests (run s [Toggle weekNum, WeekResponse ?k r, Toggle weekNum]) =
          requests s @ [week_request s (weeks s ! i), week_request s (weeks s ! i)]"
    unfolding runs using eff pre i
    by (simp add: s1 week_request_def del: step.simps)
qed

theorem week_fetch_failure_witness:
  "findIndex (\<lambda>w. w_week w = 2) (weeks ex_start) = Some 1 \<and>
   isl (week_response_days ex_error) \<and>
   w_days (weeks ex_start ! 1) = None \<and> \<not> w_expanded (weeks ex_start ! 1) \<and>
   \<not> w_loading (weeks ex_start ! 1) \<and>
   task_at ex_loading 0 = Some (WeekFetch 1) \<and>
   w_loading (weeks ex_loading ! 1) \<and>
   \<not> w_loading (weeks (step ex_loading (WeekResponse 0 ex_error)) ! 1) \<and>
   weeks (run ex_start [Toggle 2, WeekResponse 0 ex_error]) = weeks ex_start \<and>
   pending (run ex_start [Toggle 2, WeekResponse 0 ex_error]) = [] \<and>
   toasts (run ex_start [Toggle 2, WeekResponse 0 ex_error]) =
     toasts ex_start @ [(''Failed to load week details. Click to retry.'', True)] \<and>
   requests (run ex_start [Toggle 2, WeekResponse 0 ex_error, Toggle 2]) =
     [WeekRequest ''Learn Rust'' 2 (Some ''Traits'') [] ''llama3'',
      WeekRequest ''Learn Rust'' 2 (Some ''Traits'') [] ''llama3''] \<and>
   findIndex (\<lambda>w. w_week w = 2) (weeks ex_twice) = Some 1 \<and>
   task_at ex_twice 0 = Some (WeekFetch 1) \<and>
   w_days (weeks ex_twice ! 1) \<noteq> None \<and>
   requests (toggleWeekExpand (step ex_twice (WeekResponse 0 ex_error)) 2) = requests ex_twice"
proof -
  have h: "findIndex (\<lambda>w. w_week w = 2) (weeks ex_start) = Some 1"
    "isl (week_response_days ex_error)"
    by (simp_all add: ex_defs controller_defs)
  have h': "findIndex (\<lambda>w. w_week w = 2) (weeks ex_loading) = Some 1"
    by (simp add: ex_defs controller_defs)
  have h'': "findIndex (\<lambda>w. w_week w = 2) (weeks ex_twice) = Some 1"
    by (simp add: ex_defs controller_defs)
  have before: "w_days (weeks ex_start ! 1) = None \<and> \<not> w_expanded (weeks ex_start ! 1) \<and>
      \<not> w_loading (weeks ex_start ! 1) \<and> pending ex_start = [] \<and> requests ex_start = [] \<and>
      week_request ex_start (weeks ex_start ! 1) =
        WeekRequest ''Learn Rust'' 2 (Some ''Traits'') [] ''llama3'' \<and>
      task_at ex_loading 0 = Some (WeekFetch 1) \<and> w_loading (weeks ex_loading ! 1) \<and>
      length (weeks ex_start) = 2 \<and> length (weeks ex_loading) = 2"
    by (simp add: ex_defs controller_defs)
  have twice: "task_at ex_twice 0 = Some (WeekFetch 1) \<and> w_days (weeks ex_twice ! 1) \<noteq> None"
    by (simp add: ex_defs controller_defs)
  have first: "weeks (run ex_start [Toggle 2, WeekResponse 0 ex_error]) = weeks ex_start \<and>
      pending (run ex_start [Toggle 2, WeekResponse 0 ex_error]) = [] \<and>
      toasts (run ex_start [Toggle 2, WeekResponse 0 ex_error]) =
        toasts ex_start @ [(''Failed to load week details. Click to retry.'', True)] \<and>
      requests (run ex_start [Toggle 2, WeekResponse 0 ex_error, Toggle 2]) =
        [WeekRequest ''Learn Rust'' 2 (Some ''Traits'') [] ''llama3'',
         WeekRequest ''Learn Rust'' 2 (Some ''Traits'') [] ''llama3'']"
    using h before week_fetch_failure [OF h, of 0]
    by (simp add: list_update_same_conv del: step.simps)
  have second: "\<not> w_loading (weeks (step ex_loading (WeekResponse 0 ex_error)) ! 1)"
    using before week_fetch_failure [OF h' h(2), of 0] by (simp del: step.simps)
  have third: "requests (toggleWeekExpand (step ex_twice (WeekResponse 0 ex_error)) 2) =
      requests ex_twice"
    using twice week_fetch_failure [OF h'' h(2), of 0] by (simp del: step.simps)
  show ?thesis
    using h h'' before twice first second third by simp
qed

subsection \<open>Collapsing and expanding a week that has its days\<close>

text \<open>
  C6: toggling a week that is expanded and has its days collapses it without a network
  call; toggling it again expands it without a network call, and the state is the one the
  round trip started from (with the timeline drawn anew from it).
\<close>

theorem toggle_round_trip:
  assumes "findIndex (\<lambda>w. w_week w = weekNum) (weeks s) = Some i"
    and "w_expanded (weeks s ! i)"
    and "w_days (weeks s ! i) \<noteq> None"
  shows "\<not> w_expanded (weeks (toggleWeekExpand s weekNum) ! i) \<and>
         w_days (weeks (toggleWeekExpand s weekNum) ! i) = w_days (weeks s ! i) \<and>
         requests (toggleWeekExpand s weekNum) = requests s \<and>
         pending (toggleWeekExpand s weekNum) = pending s \<and>
         w_expanded (weeks (toggleWeekExpand (toggleWeekExpand s weekNum) weekNum) ! i) \<and>
         requests (toggleWeekExpand (toggleWeekExpand s weekNum) weekNum) = requests s \<and>
         pending (toggleWeekExpand (toggleWeekExpand s weekNum) weekNum) = pending s \<and>
         weeks (toggleWeekExpand (toggleWeekExpand s weekNum) weekNum) = weeks s \<and>
         toggleWeekExpand (toggleWeekExpand s weekNum) weekNum = renderWeeklyTimeline s"
proof -
  from assms(1) have i: "i < length (weeks s)" by (simp add: findIndex_Some)
  let ?s1 = "toggleWeekExpand s weekNum"
  have s1: "?s1 = renderWeeklyTimeline (set_week i (\<lambda>w. w\<lparr>w_expanded := False\<rparr>) s)"
    using assms by (simp add: toggleWeekExpand_def)
  have idx: "findIndex (\<lambda>w. w_week w = weekNum) (weeks ?s1) = Some i"
    using assms(1) findIndex_update [of "\<lambda>w. w_week w = weekNum" "\<lambda>w. w\<lparr>w_expanded := False\<rparr>" "weeks s" i]
    by (simp add: s1 renderWeeklyTimeline_def set_week_def)
  have undo: "(weeks s)[i := (weeks s ! i)\<lparr>w_expanded := True\<rparr>] = weeks s"
    using assms(2) by (simp add: list_update_same_conv i)
  from assms(3) obtain a where a: "w_days (weeks s ! i) = Some a" by auto
  have s2: "toggleWeekExpand ?s1 weekNum = renderWeeklyTimeline s"
    using idx i a undo
    by (simp add: toggleWeekExpand_def [of ?s1]) (simp add: s1 renderWeeklyTimeline_def set_week_def)
  show ?thesis
    using i assms s2 by (simp add: s1 renderWeeklyTimeline_def set_week_def)
qed

theorem toggle_round_trip_witness:
  "findIndex (\<lambda>w. w_week w = 2) (weeks ex_expanded) = Some 1 \<and>
   w_expanded (weeks ex_expanded ! 1) \<and>
   w_days (weeks ex_expanded ! 1) \<noteq> None \<and>
   \<not> w_expanded (weeks (toggleWeekExpand ex_expanded 2) ! 1) \<and>
   requests (toggleWeekExpand (toggleWeekExpand ex_expanded 2) 2) = requests ex_expanded \<and>
   toggleWeekExpand (toggleWeekExpand ex_expanded 2) 2 = ex_expanded"
proof -
  have h: "findIndex (\<lambda>w. w_week w = 2) (weeks ex_expanded) = Some 1"
    "w_expanded (weeks ex_expanded ! 1)" "w_days (weeks ex_expanded ! 1) \<noteq> None"
    by (simp_all add: ex_defs controller_defs)
  have drawn: "renderWeeklyTimeline ex_expanded = ex_expanded"
    by (simp add: ex_defs controller_defs)
  show ?thesis
    using h drawn toggle_round_trip [OF h] by simp
qed

subsection \<open>Loading a day\<close>

text \<open>
  C7: the day-load action on a day that is already loaded is a no-op: no request is sent
  and the whole state, the day's fields included, is unchanged.
\<close>

theorem loaded_day_load_noop:
  assumes "find (\<lambda>w. w_week w = weekNum) (weeks s) = Some week"
    and "w_days week = Some a"
    and "find (\<lambda>d. d_day d = dayNum) (arrays s ! a) = Some day"
    and "d_loaded day"
  shows "loadDayContent s weekNum dayNum = s"
  using assms by (auto simp: loadDayContent_def find_findIndex Let_def split: option.splits)

theorem loaded_day_load_noop_witness:
  "find (\<lambda>w. w_week w = 2) (weeks ex_loaded) = Some (weeks ex_loaded ! 1) \<and>
   w_days (weeks ex_loaded ! 1) = Some 0 \<and>
   find (\<lambda>d. d_day d = 3) (arrays ex_loaded ! 0) = Some (arrays ex_loaded ! 0 ! 2) \<and>
   d_loaded (arrays ex_loaded ! 0 ! 2) \<and>
   loadDayContent ex_loaded 2 3 = ex_loaded \<and>
   requests (loadDayContent ex_loaded 2 3) = requests ex_loaded"
proof -
  have h: "find (\<lambda>w. w_week w = 2) (weeks ex_loaded) = Some (weeks ex_loaded ! 1)"
    "w_days (weeks ex_loaded ! 1) = Some 0"
    "find (\<lambda>d. d_day d = 3) (arrays ex_loaded ! 0) = Some (arrays ex_loaded ! 0 ! 2)"
    "d_loaded (arrays ex_loaded ! 0 ! 2)"
    by (simp_all add: ex_defs controller_defs)
  show ?thesis
    using h loaded_day_load_noop [OF h] by simp
qed

text \<open>
  C9: the \<^verbatim>\<open>day_number\<close> of the request a day load sends for week \<open>w\<close> and day \<open>d\<close> is
  \<open>(w - 1) * 7 + d\<close>, which is also the \<^verbatim>\<open>globalDay\<close> of the day's card; for week 2,
  day 3 it is 10.
\<close>

theorem day_request_number:
  assumes "requests (loadDayContent s weekNum dayNum) \<noteq> requests s"
  shows "\<exists>day. requests (loadDayContent s weekNum dayNum) =
             requests s @ [day_request s weekNum dayNum day] \<and>
           day_number (day_request s weekNum dayNum day) = (weekNum - 1) * 7 + dayNum \<and>
           d_day day = dayNum \<and>
           globalDay weekNum day = (weekNum - 1) * 7 + dayNum"
  using assms
  by (auto simp: loadDayContent_def day_request_def globalDay_def Let_def
      split: option.splits if_splits dest: findIndex_Some)

theorem day_request_number_witness:
  "requests (loadDayContent ex_expanded 2 3) \<noteq> requests ex_expanded \<and>
   requests (loadDayContent ex_expanded 2 3) =
     requests ex_expanded @ [DayRequest ''Learn Rust'' (Some ''Lesson'') 10 45 ''practice'' ''llama3''] \<and>
   (2 - 1) * 7 + 3 = (10::int)"
proof -
  have sent: "requests (loadDayContent ex_expanded 2 3) =
     requests ex_expanded @ [DayRequest ''Learn Rust'' (Some ''Lesson'') 10 45 ''practice'' ''llama3'']"
    by (simp add: ex_defs controller_defs)
  then have h: "requests (loadDayContent ex_expanded 2 3) \<noteq> requests ex_expanded" by simp
  show ?thesis
    using h sent day_request_number [OF h] by simp
qed

text \<open>
  C10: a toggle with a week number that no week of the course has, and a day load with a
  week number that no week has, or whose week has no \<^verbatim>\<open>_days\<close>, or with a day number that
  no day of the week's \<^verbatim>\<open>_days\<close> has, leave the whole state unchanged; in particular no
  request is sent.
\<close>

theorem unknown_target_noop:
  "(findIndex (\<lambda>w. w_week w = weekNum) (weeks s) = None \<longrightarrow> toggleWeekExpand s weekNum = s) \<and>
   (find (\<lambda>w. w_week w = weekNum) (weeks s) = None \<longrightarrow> loadDayContent s weekNum dayNum = s) \<and>
   (\<forall>week. find (\<lambda>w. w_week w = weekNum) (weeks s) = Some week \<and> w_days week = None
       \<longrightarrow> loadDayContent s weekNum dayNum = s) \<and>
   (\<forall>week a. find (\<lambda>w. w_week w = weekNum) (weeks s) = Some week \<and> w_days week = Some a \<and>
       find (\<lambda>d. d_day d = dayNum) (arrays s ! a) = None
       \<longrightarrow> loadDayContent s weekNum dayNum = s)"
  by (auto simp: toggleWeekExpand_def loadDayContent_def find_findIndex)

theorem unknown_target_noop_witness:
  "findIndex (\<lambda>w. w_week w = 7) (weeks ex_expanded) = None \<and>
   toggleWeekExpand ex_expanded 7 = ex_expanded \<and>
   find (\<lambda>w. w_week w = 7) (weeks ex_expanded) = None \<and>
   loadDayContent ex_expanded 7 1 = ex_expanded \<and>
   find (\<lambda>w. w_week w = 1) (weeks ex_expanded) = Some (weeks ex_expanded ! 0) \<and>
   w_days (weeks ex_expanded ! 0) = None \<and>
   loadDayContent ex_expanded 1 1 = ex_expanded \<and>
   find (\<lambda>w. w_week w = 2) (weeks ex_expanded) = Some (weeks ex_expanded ! 1) \<and>
   w_days (weeks ex_expanded ! 1) = Some 0 \<and>
   find (\<lambda>d. d_day d = 9) (arrays ex_expanded ! 0) = None \<and>
   loadDayContent ex_expanded 2 9 = ex_expanded"
proof -
  have h: "findIndex (\<lambda>w. w_week w = 7) (weeks ex_expanded) = None"
    "find (\<lambda>w. w_week w = 7) (weeks ex_expanded) = None"
    "find (\<lambda>w. w_week w = 1) (weeks ex_expanded) = Some (weeks ex_expanded ! 0)"
    "w_days (weeks ex_expanded ! 0) = None"
    "find (\<lambda>w. w_week w = 2) (weeks ex_expanded) = Some (weeks ex_expanded ! 1)"
    "w_days (weeks ex_expanded ! 1) = Some 0"
    "find (\<lambda>d. d_day d = 9) (arrays ex_expanded ! 0) = None"
    by (simp_all add: ex_defs controller_defs)
  show ?thesis
    using h unknown_target_noop [of 7 ex_expanded 1] unknown_target_noop [of 1 ex_expanded 1]
      unknown_target_noop [of 2 ex_expanded 9]
    by simp
qed

subsection \<open>Escaping in the week card\<close>

lemma escape_char_no_tag: "CHR ''<'' \<notin> set (escape_char c) \<and> CHR ''>'' \<notin> set (escape_char c)"
  by (simp add: escape_char_def)

lemma serialize_text_no_tag:
  "CHR ''<'' \<notin> set (serialize_text str) \<and> CHR ''>'' \<notin> set (serialize_text str)"
  by (induction str rule: serialize_text.induct) (simp_all add: escape_char_no_tag)

lemma escHtml_no_tag: "CHR ''<'' \<notin> set (escHtml str) \<and> CHR ''>'' \<notin> set (escHtml str)"
  by (simp add: escHtml_def serialize_text_no_tag split: option.splits)

text \<open>
  C8 at a week whose title and focus are \<^verbatim>\<open><script>alert(1)</script>\<close>: the card holds the
  title escaped, as the claim says, but the focus as it came, once inside the \<^verbatim>\<open>class\<close>
  attribute and once as the content of the \<^verbatim>\<open>span\<close>, where it is a \<^verbatim>\<open>script\<close> element.
\<close>

theorem renderWeekCard_focus_unescaped:
  \<open>sublist ''<div class="day-title">&lt;script&gt;alert(1)&lt;/script&gt;</div>''
     (renderWeekCard [] ex_markup_week) \<and>
   sublist ''<span class="day-type <script>alert(1)</script>"><script>alert(1)</script></span>''
     (renderWeekCard [] ex_markup_week)\<close>
  by code_simp

end
